theory Spec2Isabelle
  imports Complex_Main
begin

section \<open>Errors and Python helpers\<close>

text \<open>
  The exceptions the code can raise. \<open>AssertionError\<close> is the \<open>assert\<close> of
  \<open>_expand_to_blocks\<close>; the others come from Python's own operators and from the tensor
  library the code calls.
\<close>

datatype torch_failure =
    NegativeDimension
  | BadRank
  | BadTuple
  | BadPadding
  | BadStride
  | BadDilation
  | BadGroups
  | ChannelMismatch
  | BiasMismatch
  | KernelTooLarge
  | FeatureMismatch
  | ShapeMismatch

datatype error =
    AssertionError
  | IndexError
  | ZeroDivisionError
  | AttributeError
  | ValueError
  | RuntimeError torch_failure

definition and_then :: "error + 'a \<Rightarrow> ('a \<Rightarrow> error + 'b) \<Rightarrow> error + 'b" where
  "and_then m f = (case m of Inl e \<Rightarrow> Inl e | Inr v \<Rightarrow> f v)"

definition item :: "'a list \<Rightarrow> int \<Rightarrow> error + 'a" where
  \<comment> \<open>\<open>xs[i]\<close>: an index from \<open>-len(xs)\<close> to \<open>-1\<close> counts from the end.\<close>
  "item xs i =
     (if 0 \<le> i \<and> i < int (length xs) then Inr (xs ! nat i)
      else if i < 0 \<and> - int (length xs) \<le> i then Inr (xs ! nat (int (length xs) + i))
      else Inl IndexError)"

definition floordiv :: "int \<Rightarrow> int \<Rightarrow> error + int" where
  \<comment> \<open>\<open>a // b\<close> on Python ints: floor division, as \<open>div\<close> on \<open>int\<close>.\<close>
  "floordiv a b = (if b = 0 then Inl ZeroDivisionError else Inr (a div b))"

definition range_py :: "int \<Rightarrow> int list" where
  "range_py n = map int [0..<nat n]"

section \<open>Tensors\<close>

text \<open>
  A tensor is its shape together with the operation that produced it (the node of the
  computational graph): the code under verification decides shapes, paddings and the order
  of the layers, while the numeric values belong to the tensor library.

  \<^item> \<open>ConstantPadNd t l r\<close>: \<open>F.pad(t, [l, r])\<close>, \<open>l\<close> zeros before and \<open>r\<close> zeros after
    every sequence along the last dimension;
  \<^item> \<open>Convolution t w b s p d g\<close>: \<open>F.conv1d(t, w, b, (s,), padding=p, dilation=(d,), groups=g)\<close>,
    which itself places \<open>p\<close> zeros on both sides of every sequence;
  \<^item> \<open>NativeBatchNorm t w b\<close>, \<open>Relu t\<close>, \<open>AddTensor t u\<close>, \<open>MeanDim t\<close> (over the last
    dimension) and \<open>Addmm t w b\<close> (the affine map of \<open>nn.Linear\<close>).
\<close>

datatype tensor = Tensor (sizes: "nat list") (grad_fn: node)
and node =
    Input
  | Parameter nat string
  | ConstantPadNd tensor int int
  | Convolution tensor tensor "tensor option" int int int int
  | NativeBatchNorm tensor tensor tensor
  | Relu tensor
  | AddTensor tensor tensor
  | MeanDim tensor
  | Addmm tensor tensor tensor

definition tensor_size :: "tensor \<Rightarrow> int \<Rightarrow> error + int" where
  \<comment> \<open>\<open>t.size(i)\<close>\<close>
  "tensor_size t i = and_then (item (sizes t) i) (\<lambda>n. Inr (int n))"

subsection \<open>The operations of the tensor library, on shapes\<close>

definition F_pad :: "tensor \<Rightarrow> int \<times> int \<Rightarrow> error + tensor" where
  \<comment> \<open>\<open>F.pad(t, [l, r])\<close>: constant padding of the last dimension.\<close>
  "F_pad t lr =
     (case lr of (l, r) \<Rightarrow>
        if sizes t = [] then Inl (RuntimeError BadRank)
        else if int (last (sizes t)) + l + r < 0 then Inl (RuntimeError BadPadding)
        else Inr (Tensor (butlast (sizes t) @ [nat (int (last (sizes t)) + l + r)])
                         (ConstantPadNd t l r)))"

definition conv_out_length ::
  "nat \<Rightarrow> nat \<Rightarrow> nat \<Rightarrow> nat \<Rightarrow> nat \<Rightarrow> tensor option \<Rightarrow> int \<Rightarrow> int \<Rightarrow> int \<Rightarrow> int \<Rightarrow> error + nat" where
  \<comment> \<open>The shape checks of a 1-D convolution and the length of its output:
      \<open>c\<close> channels of length \<open>l\<close>, a weight of shape \<open>[c_out, c_in, k]\<close>.\<close>
  "conv_out_length c l c_out c_in k bias s p d g =
     (if p < 0 then Inl (RuntimeError BadPadding)
      else if s \<le> 0 then Inl (RuntimeError BadStride)
      else if d \<le> 0 then Inl (RuntimeError BadDilation)
      else if g \<le> 0 \<or> int c_out < g then Inl (RuntimeError BadGroups)
      else if int c_out mod g \<noteq> 0 then Inl (RuntimeError BadGroups)
      else if int c \<noteq> int c_in * g then Inl (RuntimeError ChannelMismatch)
      else if (case bias of None \<Rightarrow> False | Some b \<Rightarrow> sizes b \<noteq> [c_out])
        then Inl (RuntimeError BiasMismatch)
      else if int l + 2 * p < d * (int k - 1) + 1 then Inl (RuntimeError KernelTooLarge)
      else Inr (nat ((int l + 2 * p - d * (int k - 1) - 1) div s + 1)))"

definition F_conv1d ::
  "tensor \<Rightarrow> tensor \<Rightarrow> tensor option \<Rightarrow> int list \<Rightarrow> int \<Rightarrow> int list \<Rightarrow> int \<Rightarrow> error + tensor" where
  \<comment> \<open>\<open>F.conv1d(input, weight, bias, stride, padding=p, dilation=dilation, groups=groups)\<close>
      on a batched \<open>[n, c, l]\<close> or unbatched \<open>[c, l]\<close> input.\<close>
  "F_conv1d input weight bias stride p dilation groups =
     (case (stride, dilation) of
        ([s], [d]) \<Rightarrow>
          (case sizes weight of
             [c_out, c_in, k] \<Rightarrow>
               (case sizes input of
                  [n, c, l] \<Rightarrow>
                    and_then (conv_out_length c l c_out c_in k bias s p d groups)
                      (\<lambda>l_out. Inr (Tensor [n, c_out, l_out]
                                       (Convolution input weight bias s p d groups)))
                | [c, l] \<Rightarrow>
                    and_then (conv_out_length c l c_out c_in k bias s p d groups)
                      (\<lambda>l_out. Inr (Tensor [c_out, l_out]
                                       (Convolution input weight bias s p d groups)))
                | _ \<Rightarrow> Inl (RuntimeError BadRank))
           | _ \<Rightarrow> Inl (RuntimeError BadRank))
      | _ \<Rightarrow> Inl (RuntimeError BadTuple))"

fun broadcast_rev :: "nat list \<Rightarrow> nat list \<Rightarrow> nat list option" where
  "broadcast_rev [] ys = Some ys"
| "broadcast_rev xs [] = Some xs"
| "broadcast_rev (x # xs) (y # ys) =
     (if x = y \<or> y = 1 then map_option ((#) x) (broadcast_rev xs ys)
      else if x = 1 then map_option ((#) y) (broadcast_rev xs ys)
      else None)"

definition tensor_add :: "tensor \<Rightarrow> tensor \<Rightarrow> error + tensor" where
  \<comment> \<open>\<open>a + b\<close>: elementwise, with the library's broadcasting of the shapes.\<close>
  "tensor_add a b =
     (case broadcast_rev (rev (sizes a)) (rev (sizes b)) of
        None \<Rightarrow> Inl (RuntimeError ShapeMismatch)
      | Some s \<Rightarrow> Inr (Tensor (rev s) (AddTensor a b)))"

definition tensor_mean :: "tensor \<Rightarrow> tensor" where
  \<comment> \<open>\<open>t.mean(dim=-1)\<close>\<close>
  "tensor_mean t = Tensor (butlast (sizes t)) (MeanDim t)"

section \<open>The same-padding convolution\<close>

definition padding_length :: "tensor \<Rightarrow> tensor \<Rightarrow> int list \<Rightarrow> int list \<Rightarrow> error + int" where
  \<comment> \<open>\<open>conv1d_same_padding\<close>, the lines that compute \<open>padding_length\<close>\<close>
  "padding_length input weight stride dilation =
     and_then (tensor_size input 1) (\<lambda>input_length.
     and_then (tensor_size weight 1) (\<lambda>filter_length.
     and_then (item dilation 0) (\<lambda>d0.
     let effective_filter_size_length = (filter_length - 1) * d0 + 1 in
     and_then (item stride 0) (\<lambda>s0.
     and_then (floordiv (input_length + s0 - 1) s0) (\<lambda>out_length.
     Inr (max 0 ((out_length - 1) * s0 + effective_filter_size_length - input_length)))))))"

definition conv1d_same_padding ::
  "tensor \<Rightarrow> tensor \<Rightarrow> tensor option \<Rightarrow> int list \<Rightarrow> int list \<Rightarrow> int \<Rightarrow> error + tensor" where
  "conv1d_same_padding input weight bias stride dilation groups =
     and_then (padding_length input weight stride dilation) (\<lambda>padding_length.
     let length_odd = (padding_length mod 2 \<noteq> 0) in
     and_then (if length_odd then F_pad input (0, if length_odd then 1 else 0) else Inr input)
       (\<lambda>input.
     F_conv1d input weight bias stride (padding_length div 2) dilation groups))"

section \<open>Broadcasting of the hyperparameters\<close>

datatype 'a param = Scalar 'a | PerBlock "'a list"

definition expand_to_blocks :: "'a param \<Rightarrow> int \<Rightarrow> error + 'a list" where
  \<comment> \<open>\<open>InceptionModel._expand_to_blocks\<close>\<close>
  "expand_to_blocks v num_blocks =
     (case v of
        PerBlock xs \<Rightarrow> if int (length xs) = num_blocks then Inr xs else Inl AssertionError
      | Scalar x \<Rightarrow> Inr (replicate (nat num_blocks) x))"

section \<open>Layers\<close>

record Conv1dSamePadding =
  conv_weight :: tensor
  conv_bias :: "tensor option"
  conv_stride :: "int list"
  conv_dilation :: "int list"
  conv_groups :: int

record BatchNorm1d =
  num_features :: int
  bn_weight :: tensor
  bn_bias :: tensor
  training :: bool

record Linear =
  in_features :: int
  out_features :: int
  lin_weight :: tensor
  lin_bias :: tensor

datatype layer =
    ConvLayer Conv1dSamePadding
  | NormLayer BatchNorm1d
  | ActLayer
  | LinearLayer Linear

text \<open>
  Building a layer is the side effect of a constructor: the layers built so far are kept
  in a registry, threaded through every constructor, and a constructor that raises leaves
  the registry as it was when the exception left it. A parameter tensor is named by the
  position of its layer in the registry.
\<close>

type_synonym registry = "layer list"
type_synonym 'a ctor = "registry \<Rightarrow> (error + 'a) \<times> registry"

definition ctor_return :: "'a \<Rightarrow> 'a ctor" where
  "ctor_return v reg = (Inr v, reg)"

definition ctor_lift :: "error + 'a \<Rightarrow> 'a ctor" where
  "ctor_lift r reg = (r, reg)"

definition ctor_bind :: "'a ctor \<Rightarrow> ('a \<Rightarrow> 'b ctor) \<Rightarrow> 'b ctor" where
  "ctor_bind m f reg =
     (case m reg of
        (Inl e, reg') \<Rightarrow> (Inl e, reg')
      | (Inr v, reg') \<Rightarrow> f v reg')"

fun ctor_for :: "int list \<Rightarrow> (int \<Rightarrow> 'a ctor) \<Rightarrow> 'a list ctor" where
  \<comment> \<open>the list comprehension \<open>[f(i) for i in is]\<close> over constructors\<close>
  "ctor_for [] f = ctor_return []"
| "ctor_for (i # is) f =
     ctor_bind (f i) (\<lambda>v. ctor_bind (ctor_for is f) (\<lambda>vs. ctor_return (v # vs)))"

definition Conv1dSamePadding_init :: "int \<Rightarrow> int \<Rightarrow> int \<Rightarrow> int \<Rightarrow> bool \<Rightarrow> Conv1dSamePadding ctor" where
  \<comment> \<open>\<open>Conv1dSamePadding(in_channels, out_channels, kernel_size, stride=stride, bias=bias)\<close>:
      the constructor of \<open>nn.Conv1d\<close> with dilation 1 and one group.\<close>
  "Conv1dSamePadding_init in_channels out_channels kernel_size stride bias reg =
     (if in_channels < 0 \<or> out_channels < 0 \<or> kernel_size < 0
      then (Inl (RuntimeError NegativeDimension), reg)
      else
        let m = \<lparr> conv_weight =
                    Tensor [nat out_channels, nat in_channels, nat kernel_size]
                           (Parameter (length reg) ''weight''),
                  conv_bias =
                    (if bias then Some (Tensor [nat out_channels] (Parameter (length reg) ''bias''))
                     else None),
                  conv_stride = [stride],
                  conv_dilation = [1],
                  conv_groups = 1 \<rparr>
        in (Inr m, reg @ [ConvLayer m]))"

definition BatchNorm1d_init :: "int \<Rightarrow> BatchNorm1d ctor" where
  "BatchNorm1d_init n reg =
     (if n < 0 then (Inl (RuntimeError NegativeDimension), reg)
      else
        let m = \<lparr> num_features = n,
                  bn_weight = Tensor [nat n] (Parameter (length reg) ''weight''),
                  bn_bias = Tensor [nat n] (Parameter (length reg) ''bias''),
                  training = True \<rparr>
        in (Inr m, reg @ [NormLayer m]))"

definition ReLU_init :: "layer ctor" where
  "ReLU_init reg = (Inr ActLayer, reg @ [ActLayer])"

definition Linear_init :: "int \<Rightarrow> int \<Rightarrow> Linear ctor" where
  "Linear_init n_in n_out reg =
     (if n_in < 0 \<or> n_out < 0 then (Inl (RuntimeError NegativeDimension), reg)
      else
        let m = \<lparr> in_features = n_in,
                  out_features = n_out,
                  lin_weight = Tensor [nat n_out, nat n_in] (Parameter (length reg) ''weight''),
                  lin_bias = Tensor [nat n_out] (Parameter (length reg) ''bias'') \<rparr>
        in (Inr m, reg @ [LinearLayer m]))"

definition Conv1dSamePadding_forward :: "Conv1dSamePadding \<Rightarrow> tensor \<Rightarrow> error + tensor" where
  "Conv1dSamePadding_forward self input =
     conv1d_same_padding input (conv_weight self) (conv_bias self) (conv_stride self)
       (conv_dilation self) (conv_groups self)"

definition BatchNorm1d_forward :: "BatchNorm1d \<Rightarrow> tensor \<Rightarrow> error + tensor" where
  "BatchNorm1d_forward self x =
     (let per_channel =
        (case sizes x of
           [n, c] \<Rightarrow> Some (c, n)
         | [n, c, l] \<Rightarrow> Some (c, n * l)
         | _ \<Rightarrow> None)
      in case per_channel of
           None \<Rightarrow> Inl ValueError
         | Some (c, values) \<Rightarrow>
             if training self \<and> values = 1 then Inl ValueError
             else if int c \<noteq> num_features self then Inl (RuntimeError FeatureMismatch)
             else Inr (Tensor (sizes x) (NativeBatchNorm x (bn_weight self) (bn_bias self))))"

definition ReLU_forward :: "tensor \<Rightarrow> error + tensor" where
  "ReLU_forward x = Inr (Tensor (sizes x) (Relu x))"

definition Linear_forward :: "Linear \<Rightarrow> tensor \<Rightarrow> error + tensor" where
  "Linear_forward self x =
     (if sizes x = [] then Inl (RuntimeError BadRank)
      else if int (last (sizes x)) \<noteq> in_features self then Inl (RuntimeError ShapeMismatch)
      else Inr (Tensor (butlast (sizes x) @ [nat (out_features self)])
                       (Addmm x (lin_weight self) (lin_bias self))))"

fun layer_forward :: "layer \<Rightarrow> tensor \<Rightarrow> error + tensor" where
  "layer_forward (ConvLayer m) x = Conv1dSamePadding_forward m x"
| "layer_forward (NormLayer m) x = BatchNorm1d_forward m x"
| "layer_forward ActLayer x = ReLU_forward x"
| "layer_forward (LinearLayer m) x = Linear_forward m x"

fun Sequential_forward :: "('m \<Rightarrow> tensor \<Rightarrow> error + tensor) \<Rightarrow> 'm list \<Rightarrow> tensor \<Rightarrow> error + tensor" where
  \<comment> \<open>\<open>nn.Sequential\<close>: each module consumes the output of the one before.\<close>
  "Sequential_forward fwd [] x = Inr x"
| "Sequential_forward fwd (m # ms) x = and_then (fwd m x) (Sequential_forward fwd ms)"

section \<open>The inception block\<close>

record InceptionBlock =
  use_bottleneck :: bool
  bottleneck :: "Conv1dSamePadding option"
  conv_layers :: "layer list"
  batchnorm :: BatchNorm1d
  relu :: layer
  use_residual :: bool
  residual :: "layer list option"

definition InceptionBlock_init ::
  "int \<Rightarrow> int \<Rightarrow> bool \<Rightarrow> int \<Rightarrow> int \<Rightarrow> int \<Rightarrow> InceptionBlock ctor" where
  "InceptionBlock_init in_channels out_channels residual_flag stride bottleneck_channels kernel_size =
     (let use_bn = (bottleneck_channels > 0) in
      ctor_bind
        (if use_bn
         then ctor_bind (Conv1dSamePadding_init in_channels bottleneck_channels 1 1 False)
                (\<lambda>b. ctor_return (Some b))
         else ctor_return None) (\<lambda>bneck.
      let kernel_size_s = map (\<lambda>i. kernel_size div 2 ^ nat i) (range_py 3);
          channels = [bottleneck_channels] @ replicate 3 out_channels in
      ctor_bind
        (ctor_for (range_py (int (length kernel_size_s))) (\<lambda>i.
           ctor_bind (ctor_lift (item channels i)) (\<lambda>c_in.
           ctor_bind (ctor_lift (item channels (i + 1))) (\<lambda>c_out.
           ctor_bind (ctor_lift (item kernel_size_s i)) (\<lambda>k.
           ctor_bind (Conv1dSamePadding_init c_in c_out k stride False) (\<lambda>c.
           ctor_return (ConvLayer c))))))) (\<lambda>convs.
      ctor_bind (ctor_lift (item channels (- 1))) (\<lambda>c_last.
      ctor_bind (BatchNorm1d_init c_last) (\<lambda>bn.
      ctor_bind ReLU_init (\<lambda>act.
      ctor_bind
        (if residual_flag
         then ctor_bind (Conv1dSamePadding_init in_channels out_channels 1 stride False) (\<lambda>rc.
              ctor_bind (BatchNorm1d_init out_channels) (\<lambda>rbn.
              ctor_bind ReLU_init (\<lambda>rrelu.
              ctor_return (Some [ConvLayer rc, NormLayer rbn, rrelu]))))
         else ctor_return None) (\<lambda>res.
      ctor_return
        \<lparr> use_bottleneck = use_bn,
          bottleneck = bneck,
          conv_layers = convs,
          batchnorm = bn,
          relu = act,
          use_residual = residual_flag,
          residual = res \<rparr>)))))))"

definition InceptionBlock_forward :: "InceptionBlock \<Rightarrow> tensor \<Rightarrow> error + tensor" where
  "InceptionBlock_forward self x =
     (let org_x = x in
      and_then
        (if use_bottleneck self
         then (case bottleneck self of
                 None \<Rightarrow> Inl AttributeError
               | Some b \<Rightarrow> Conv1dSamePadding_forward b x)
         else Inr x) (\<lambda>x.
      and_then (Sequential_forward layer_forward (conv_layers self) x) (\<lambda>x.
      if use_residual self
      then and_then
             (case residual self of
                None \<Rightarrow> Inl AttributeError
              | Some r \<Rightarrow> Sequential_forward layer_forward r org_x)
             (\<lambda>r. tensor_add x r)
      else Inr x)))"

section \<open>The model\<close>

datatype residuals = Default | Given "bool param"

record InceptionModel =
  blocks :: "InceptionBlock list"
  linear_layer :: Linear

definition InceptionModel_init ::
  "int \<Rightarrow> int \<Rightarrow> int param \<Rightarrow> int param \<Rightarrow> int param \<Rightarrow> residuals \<Rightarrow> int \<Rightarrow> InceptionModel ctor" where
  "InceptionModel_init num_blocks in_channels out_channels bottleneck_channels kernel_sizes
       use_residuals num_pred_classes =
     ctor_bind (ctor_lift (expand_to_blocks out_channels num_blocks)) (\<lambda>outs.
     let channels = [in_channels] @ outs in
     ctor_bind (ctor_lift (expand_to_blocks bottleneck_channels num_blocks)) (\<lambda>bottleneck_channels.
     ctor_bind (ctor_lift (expand_to_blocks kernel_sizes num_blocks)) (\<lambda>kernel_sizes.
     let use_residuals =
           (case use_residuals of
              Default \<Rightarrow>
                PerBlock (map (\<lambda>i. if i mod 3 = 2 then True else False) (range_py num_blocks))
            | Given v \<Rightarrow> v) in
     ctor_bind (ctor_lift (expand_to_blocks use_residuals num_blocks)) (\<lambda>use_residuals.
     ctor_bind
       (ctor_for (range_py num_blocks) (\<lambda>i.
          ctor_bind (ctor_lift (item channels i)) (\<lambda>c_in.
          ctor_bind (ctor_lift (item channels (i + 1))) (\<lambda>c_out.
          ctor_bind (ctor_lift (item use_residuals i)) (\<lambda>res.
          ctor_bind (ctor_lift (item bottleneck_channels i)) (\<lambda>bc.
          ctor_bind (ctor_lift (item kernel_sizes i)) (\<lambda>k.
          InceptionBlock_init c_in c_out res 1 bc k))))))) (\<lambda>bs.
     ctor_bind (ctor_lift (item channels (- 1))) (\<lambda>c_last.
     ctor_bind (Linear_init c_last num_pred_classes) (\<lambda>lin.
     ctor_return \<lparr> blocks = bs, linear_layer = lin \<rparr>)))))))"

definition InceptionModel_forward :: "InceptionModel \<Rightarrow> tensor \<Rightarrow> error + tensor" where
  "InceptionModel_forward self x =
     and_then (Sequential_forward InceptionBlock_forward (blocks self) x) (\<lambda>x.
     Linear_forward (linear_layer self) (tensor_mean x))"

section \<open>Observations used to state the properties\<close>

text \<open>
  \<open>zeros_around x y\<close> reads off the graph of a convolution output \<open>y\<close> how many zeros
  stand before and after every sequence of \<open>x\<close> in the signal the kernel slides over:
  the padding of the convolution itself on both sides, and that of a \<open>F.pad\<close> between
  \<open>x\<close> and the convolution.
\<close>

definition zeros_around :: "tensor \<Rightarrow> tensor \<Rightarrow> (int \<times> int) option" where
  "zeros_around x y =
     (case grad_fn y of
        Convolution t w b s p d g \<Rightarrow>
          if t = x then Some (p, p)
          else (case grad_fn t of
                  ConstantPadNd t' l r \<Rightarrow> if t' = x then Some (l + p, r + p) else None
                | _ \<Rightarrow> None)
      | _ \<Rightarrow> None)"

section \<open>Evaluation rules\<close>

lemma range_py_unfold: "range_py n = (if n \<le> 0 then [] else range_py (n - 1) @ [n - 1])"
proof (cases "n \<le> 0")
  case True
  then show ?thesis by (simp add: range_py_def)
next
  case False
  then have "nat n = Suc (nat (n - 1))" by simp
  then show ?thesis using False by (simp add: range_py_def)
qed

lemmas ctor_defs = ctor_bind_def ctor_return_def ctor_lift_def
lemmas init_defs = InceptionBlock_init_def Conv1dSamePadding_init_def
  BatchNorm1d_init_def ReLU_init_def Linear_init_def

lemmas forward_defs = InceptionModel_forward_def InceptionBlock_forward_def
  Conv1dSamePadding_forward_def conv1d_same_padding_def padding_length_def tensor_size_def
  item_def floordiv_def F_pad_def F_conv1d_def conv_out_length_def tensor_mean_def
  Linear_forward_def BatchNorm1d_forward_def ReLU_forward_def tensor_add_def Let_def

lemmas model_defs = InceptionModel_init_def init_defs ctor_defs expand_to_blocks_def
  range_py_unfold

section \<open>Properties of the hyperparameter expansion\<close>

lemma ctor_bind_lift_Inl [simp]: "ctor_bind (ctor_lift (Inl e)) f reg = (Inl e, reg)"
  by (simp add: ctor_bind_def ctor_lift_def)

lemma ctor_bind_lift_Inr [simp]: "ctor_bind (ctor_lift (Inr v)) f reg = f v reg"
  by (simp add: ctor_bind_def ctor_lift_def)

lemma ctor_bind_return [simp]: "ctor_bind (ctor_return v) f reg = f v reg"
  by (simp add: ctor_bind_def ctor_return_def)


lemma expand_to_blocks_cases:
  "expand_to_blocks p n = Inl AssertionError \<or> (\<exists>xs. expand_to_blocks p n = Inr xs)"
  by (auto simp: expand_to_blocks_def split: param.splits)

lemma expand_to_blocks_mismatch:
  "int (length xs) \<noteq> n \<Longrightarrow> expand_to_blocks (PerBlock xs) n = Inl AssertionError"
  by (simp add: expand_to_blocks_def)

text \<open>
  Claim C9. A hyperparameter given as a scalar is expanded by \<open>_expand_to_blocks\<close> to a
  list of length exactly \<open>num_blocks\<close>, every entry of which is the scalar.
\<close>

theorem expand_scalar:
  "0 \<le> num_blocks \<Longrightarrow>
     \<exists>xs. expand_to_blocks (Scalar v) num_blocks = Inr xs \<and> int (length xs) = num_blocks
          \<and> (\<forall>x \<in> set xs. x = v)"
  by (simp add: expand_to_blocks_def)

theorem expand_scalar_witness:
  "(0::int) \<le> 3 \<and> (\<exists>xs. expand_to_blocks (Scalar (8::int)) 3 = Inr xs \<and> int (length xs) = 3
          \<and> (\<forall>x \<in> set xs. x = 8))"
  using expand_scalar [of 3 "8::int"] by simp

text \<open>
  Claim C7. When \<open>out_channels\<close>, \<open>bottleneck_channels\<close>, \<open>kernel_sizes\<close> or
  \<open>use_residuals\<close> is a list whose length is not \<open>num_blocks\<close>, the construction of the
  model raises the assertion error of \<open>_expand_to_blocks\<close>, and the registry of built
  layers is the one the constructor started from: no layer has been built.
\<close>

theorem list_length_mismatch_fails_first:
  assumes "(\<exists>xs. out_channels = PerBlock xs \<and> int (length xs) \<noteq> num_blocks)
         \<or> (\<exists>xs. bottleneck_channels = PerBlock xs \<and> int (length xs) \<noteq> num_blocks)
         \<or> (\<exists>xs. kernel_sizes = PerBlock xs \<and> int (length xs) \<noteq> num_blocks)
         \<or> (\<exists>xs. use_residuals = Given (PerBlock xs) \<and> int (length xs) \<noteq> num_blocks)"
  shows "InceptionModel_init num_blocks in_channels out_channels bottleneck_channels kernel_sizes
           use_residuals num_pred_classes reg = (Inl AssertionError, reg)"
proof -
  let ?r = "case use_residuals of
              Default \<Rightarrow>
                PerBlock (map (\<lambda>i. if i mod 3 = 2 then True else False) (range_py num_blocks))
            | Given v \<Rightarrow> v"
  have bad: "expand_to_blocks out_channels num_blocks = Inl AssertionError
           \<or> expand_to_blocks bottleneck_channels num_blocks = Inl AssertionError
           \<or> expand_to_blocks kernel_sizes num_blocks = Inl AssertionError
           \<or> expand_to_blocks ?r num_blocks = Inl AssertionError"
    using assms by (auto simp: expand_to_blocks_mismatch)
  show ?thesis
    using bad expand_to_blocks_cases [of out_channels num_blocks]
      expand_to_blocks_cases [of bottleneck_channels num_blocks]
      expand_to_blocks_cases [of kernel_sizes num_blocks]
    unfolding InceptionModel_init_def Let_def
    by (elim disjE exE) simp_all
qed

theorem list_length_mismatch_fails_first_witness:
  "InceptionModel_init 3 2 (Scalar 8) (Scalar 4) (PerBlock [9, 9]) Default 3 []
     = (Inl AssertionError, [])
   \<and> InceptionModel_init 3 2 (Scalar 8) (Scalar 4) (Scalar 9)
       (Given (PerBlock [True, False, True, False])) 3 [] = (Inl AssertionError, [])"
proof -
  have k: "\<exists>xs. PerBlock [9, 9 :: int] = PerBlock xs \<and> int (length xs) \<noteq> 3"
    by simp
  have r: "\<exists>xs. Given (PerBlock [True, False, True, False]) = Given (PerBlock xs)
             \<and> int (length xs) \<noteq> 3"
    by simp
  show ?thesis
    using list_length_mismatch_fails_first
            [of "Scalar 8" 3 "Scalar 4" "PerBlock [9, 9]" Default 2 3 "[]"]
          list_length_mismatch_fails_first
            [of "Scalar 8" 3 "Scalar 4" "Scalar 9" "Given (PerBlock [True, False, True, False])"
                2 3 "[]"]
          k r
    by blast
qed





section \<open>Properties of the same-padding convolution\<close>

lemma neg_div_neg:
  fixes a s :: int
  assumes "0 < s"
  shows "- (- a div s) = (a + s - 1) div s"
proof -
  define q where "q = a div s"
  define r where "r = a mod s"
  have a: "a = s * q + r" by (simp add: q_def r_def)
  have r: "0 \<le> r" "r < s" using assms by (simp_all add: r_def)
  show ?thesis
  proof (cases "r = 0")
    case True
    have "(a + s - 1) div s = q"
      by (rule int_div_pos_eq [where r = "s - 1"]) (use a True assms in simp_all)
    moreover have "(- a) div s = - q"
      by (rule int_div_pos_eq [where r = 0]) (use a True assms in simp_all)
    ultimately show ?thesis by simp
  next
    case False
    have "(a + s - 1) div s = q + 1"
      by (rule int_div_pos_eq [where r = "r - 1"]) (use a False r in \<open>simp_all add: algebra_simps\<close>)
    moreover have "(- a) div s = - q - 1"
      by (rule int_div_pos_eq [where r = "s - r"]) (use a False r in \<open>simp_all add: algebra_simps\<close>)
    ultimately show ?thesis by simp
  qed
qed

lemma ceil_div_int:
  fixes a s :: int
  assumes "0 < s"
  shows "(a + s - 1) div s = \<lceil>real_of_int a / real_of_int s\<rceil>"
  using neg_div_neg [OF assms, of a] by (simp add: ceiling_divide_eq_div)

lemma item_0 [simp]: "item (x # xs) 0 = Inr x"
  by (simp add: item_def)

lemma item_1 [simp]: "item (x # y # xs) 1 = Inr y"
  by (simp add: item_def)

lemma padding_length_eq:
  assumes "sizes x = n # c # rest" "sizes w = co # w1 # wrest" "stride = s # ss" "dilation = d # ds"
  shows "padding_length x w stride dilation =
           (if s = 0 then Inl ZeroDivisionError
            else Inr (max 0 (((int c + s - 1) div s - 1) * s + ((int w1 - 1) * d + 1) - int c)))"
  using assms by (simp add: padding_length_def tensor_size_def and_then_def floordiv_def Let_def)

text \<open>
  Claim C10. The padding computed by \<open>conv1d_same_padding\<close> is read from the size of the
  input along dimension 1 and the size of the weight along dimension 1, with the stride and
  the dilation: two inputs that agree along dimension 1 get the same padding whatever
  their other sizes (their sequence lengths) are, and for a positive stride it is
  \<open>max(0, (ceil(c / s) - 1) * s + (w1 - 1) * d + 1 - c)\<close>.
\<close>

theorem padding_length_reads_dim1:
  assumes "sizes x = n # c # rest" and "sizes x' = n' # c # rest'"
    and "sizes w = c_out # w1 # wrest"
    and "stride = s # ss" and "dilation = d # ds"
  shows "padding_length x w stride dilation = padding_length x' w stride dilation
       \<and> (0 < s \<longrightarrow>
            padding_length x w stride dilation =
              Inr (max 0 ((\<lceil>real c / real_of_int s\<rceil> - 1) * s + (int w1 - 1) * d + 1 - int c)))"
proof -
  have 1: "padding_length x w stride dilation = padding_length x' w stride dilation"
    by (simp add: padding_length_eq [OF assms(1) assms(3-5)] padding_length_eq [OF assms(2-5)])
  have 2: "padding_length x w stride dilation =
              Inr (max 0 ((\<lceil>real c / real_of_int s\<rceil> - 1) * s + (int w1 - 1) * d + 1 - int c))"
    if "0 < s"
  proof -
    have "(int c + s - 1) div s = \<lceil>real c / real_of_int s\<rceil>"
      using ceil_div_int [OF that, of "int c"] by simp
    then show ?thesis
      using that by (simp add: padding_length_eq [OF assms(1) assms(3-5)] algebra_simps)
  qed
  from 1 2 show ?thesis by blast
qed

theorem padding_length_reads_dim1_witness:
  "padding_length (Tensor [1, 2, 100] Input) (Tensor [8, 2, 41] (Parameter 0 ''weight'')) [1] [1]
     = padding_length (Tensor [1, 2, 7] Input) (Tensor [8, 2, 41] (Parameter 0 ''weight'')) [1] [1]
   \<and> padding_length (Tensor [1, 2, 100] Input) (Tensor [8, 2, 41] (Parameter 0 ''weight'')) [1] [1]
     = Inr 1"
proof -
  let ?x = "Tensor [1, 2, 100] Input" and ?x' = "Tensor [1, 2, 7] Input"
  let ?w = "Tensor [8, 2, 41] (Parameter 0 ''weight'')"
  have t: "padding_length ?x ?w [1] [1] = padding_length ?x' ?w [1] [1]
       \<and> ((0::int) < 1 \<longrightarrow>
            padding_length ?x ?w [1] [1] =
              Inr (max 0 ((\<lceil>real 2 / real_of_int 1\<rceil> - 1) * 1 + (int 2 - 1) * 1 + 1 - int 2)))"
    by (rule padding_length_reads_dim1 [where n = 1 and rest = "[100]" and n' = 1
          and rest' = "[7]" and c_out = 8 and wrest = "[41]" and ss = "[]" and ds = "[]"])
       simp_all
  have v: "max 0 ((\<lceil>real 2 / real_of_int 1\<rceil> - 1) * 1 + (int 2 - 1) * 1 + 1 - int 2) = (1::int)"
    by simp
  have p: "(0::int) < 1" by simp
  from t p show ?thesis unfolding v by blast
qed

section \<open>Properties of the model construction\<close>

lemma length_range_py [simp]: "length (range_py n) = nat n"
  by (simp add: range_py_def)

lemma nth_range_py [simp]: "j < nat n \<Longrightarrow> range_py n ! j = int j"
  by (simp add: range_py_def)






section \<open>Properties of the forward passes\<close>

lemma and_then_InrD: "and_then m f = Inr y \<Longrightarrow> \<exists>v. m = Inr v \<and> f v = Inr y"
  by (cases m) (simp_all add: and_then_def)

lemma and_then_Inr [simp]: "and_then (Inr v) f = f v"
  by (simp add: and_then_def)

lemma and_then_Inl [simp]: "and_then (Inl e) f = Inl e"
  by (simp add: and_then_def)

lemma pad_not_self: "Tensor s (ConstantPadNd x l r) \<noteq> x"
proof
  assume "Tensor s (ConstantPadNd x l r) = x"
  then have "size (Tensor s (ConstantPadNd x l r)) = size x" by simp
  then show False by simp
qed

lemma F_conv1d_InrD:
  "F_conv1d t w b stride p dilation g = Inr y \<Longrightarrow>
     grad_fn y = Convolution t w b (hd stride) p (hd dilation) g"
  by (auto simp: F_conv1d_def split: list.splits dest!: and_then_InrD)

lemma padding_length_rank:
  "padding_length input weight stride dilation = Inr p \<Longrightarrow> sizes input \<noteq> []"
  by (auto simp: padding_length_def tensor_size_def item_def dest!: and_then_InrD)

text \<open>
  Claim C4. Once \<open>conv1d_same_padding\<close> has computed a padding \<open>p\<close> (it raises what that
  computation raises), what it returns
  or raises is what \<open>F.conv1d\<close> returns or raises with \<open>padding = p // 2\<close> on both sides,
  called on the input itself when \<open>p\<close> is even and, when \<open>p\<close> is odd, on the input padded
  by \<open>F.pad\<close> with no zero on the left and one zero on the right of every sequence. A
  result therefore has \<open>p // 2\<close> zeros before every sequence and, for an odd \<open>p\<close>,
  \<open>p // 2 + 1\<close> after it: the extra unit is on the right and never on the left.
\<close>

theorem odd_padding_goes_right:
  "conv1d_same_padding input weight bias stride dilation groups =
     and_then (padding_length input weight stride dilation) (\<lambda>p.
       F_conv1d
         (if odd p
          then Tensor (butlast (sizes input) @ [last (sizes input) + 1])
                      (ConstantPadNd input 0 1)
          else input)
         weight bias stride (p div 2) dilation groups)
   \<and> (\<forall>p y. padding_length input weight stride dilation = Inr p \<longrightarrow>
          conv1d_same_padding input weight bias stride dilation groups = Inr y \<longrightarrow>
          zeros_around input y = Some (p div 2, p div 2 + (if odd p then 1 else 0)))"
proof -
  let ?padded = "Tensor (butlast (sizes input) @ [last (sizes input) + 1]) (ConstantPadNd input 0 1)"
  let ?conv = "\<lambda>p. F_conv1d (if odd p then ?padded else input) weight bias stride (p div 2)
                      dilation groups"
  have eq: "conv1d_same_padding input weight bias stride dilation groups = ?conv p"
    if p: "padding_length input weight stride dilation = Inr p" for p
  proof (cases "odd p")
    case True
    then have m: "p mod 2 \<noteq> 0" by presburger
    have "F_pad input (0, 1) = Inr ?padded"
      using padding_length_rank [OF p] by (simp add: F_pad_def nat_add_distrib)
    with p m True show ?thesis
      by (simp add: conv1d_same_padding_def Let_def)
  next
    case False
    then have "p mod 2 = 0" by presburger
    with p False show ?thesis
      by (simp add: conv1d_same_padding_def Let_def)
  qed
  have 1: "conv1d_same_padding input weight bias stride dilation groups =
             and_then (padding_length input weight stride dilation) ?conv"
  proof (cases "padding_length input weight stride dilation")
    case (Inl e)
    then show ?thesis by (simp add: conv1d_same_padding_def)
  next
    case (Inr p)
    with eq [OF Inr] show ?thesis by simp
  qed
  have 2: "zeros_around input y = Some (p div 2, p div 2 + (if odd p then 1 else 0))"
    if p: "padding_length input weight stride dilation = Inr p"
      and y: "conv1d_same_padding input weight bias stride dilation groups = Inr y" for p y
  proof (cases "odd p")
    case True
    with y eq [OF p] have "F_conv1d ?padded weight bias stride (p div 2) dilation groups = Inr y"
      by simp
    from F_conv1d_InrD [OF this] show ?thesis
      using True pad_not_self [of _ input 0 1] by (simp add: zeros_around_def)
  next
    case False
    with y eq [OF p] have "F_conv1d input weight bias stride (p div 2) dilation groups = Inr y"
      by simp
    from F_conv1d_InrD [OF this] show ?thesis
      using False by (simp add: zeros_around_def)
  qed
  from 1 2 show ?thesis by blast
qed

theorem odd_padding_goes_right_witness:
  "padding_length (Tensor [5, 4, 51] Input) (Tensor [8, 4, 9] (Parameter 1 ''weight'')) [1] [1]
     = Inr 3
   \<and> conv1d_same_padding (Tensor [5, 4, 51] Input) (Tensor [8, 4, 9] (Parameter 1 ''weight''))
       None [1] [1] 1
     = Inr (Tensor [5, 8, 46]
              (Convolution (Tensor [5, 4, 52] (ConstantPadNd (Tensor [5, 4, 51] Input) 0 1))
                 (Tensor [8, 4, 9] (Parameter 1 ''weight'')) None 1 1 1 1))
   \<and> zeros_around (Tensor [5, 4, 51] Input)
        (Tensor [5, 8, 46]
              (Convolution (Tensor [5, 4, 52] (ConstantPadNd (Tensor [5, 4, 51] Input) 0 1))
                 (Tensor [8, 4, 9] (Parameter 1 ''weight'')) None 1 1 1 1))
     = Some (1, 2)
   \<and> conv1d_same_padding (Tensor [5, 4, 5] Input) (Tensor [8, 4, 9] (Parameter 1 ''weight''))
       None [1] [1] 1
     = Inl (RuntimeError KernelTooLarge)"
proof -
  let ?x = "Tensor [5, 4, 51] Input" and ?w = "Tensor [8, 4, 9] (Parameter 1 ''weight'')"
  let ?y = "Tensor [5, 8, 46]
              (Convolution (Tensor [5, 4, 52] (ConstantPadNd ?x 0 1)) ?w None 1 1 1 1)"
  let ?short = "Tensor [5, 4, 5] Input"
  have p: "padding_length ?x ?w [1] [1] = Inr 3"
    by (simp add: forward_defs)
  note t = odd_padding_goes_right [of ?x ?w None "[1]" "[1]" 1]
  from t p have "conv1d_same_padding ?x ?w None [1] [1] 1 =
      F_conv1d (Tensor [5, 4, 52] (ConstantPadNd ?x 0 1)) ?w None [1] 1 [1] 1"
    by simp
  then have c: "conv1d_same_padding ?x ?w None [1] [1] 1 = Inr ?y"
    by (simp add: F_conv1d_def conv_out_length_def)
  from t p c have "zeros_around ?x ?y = Some (3 div 2, 3 div 2 + (if odd (3::int) then 1 else 0))"
    by blast
  then have z: "zeros_around ?x ?y = Some (1, 2)" by simp
  have ps: "padding_length ?short ?w [1] [1] = Inr 3"
    by (simp add: forward_defs)
  from odd_padding_goes_right [of ?short ?w None "[1]" "[1]" 1] ps
  have "conv1d_same_padding ?short ?w None [1] [1] 1 =
      F_conv1d (Tensor [5, 4, 6] (ConstantPadNd ?short 0 1)) ?w None [1] 1 [1] 1"
    by simp
  then have s: "conv1d_same_padding ?short ?w None [1] [1] 1 = Inl (RuntimeError KernelTooLarge)"
    by (simp add: F_conv1d_def conv_out_length_def)
  from p c z s show ?thesis by blast
qed

text \<open>
  Claim C1. The claim is that the same-padding convolution returns a sequence of length
  \<open>ceil(input_length / stride)\<close>, so length 100 for an input of length 100 at stride 1
  whatever the kernel. The code reads \<open>input_length\<close> and \<open>filter_length\<close> from
  dimension 1 of the input and of the weight, which hold the channels: a layer of 2 input
  channels, 8 output channels and kernel 41 returns length 61 for an input of shape
  \<open>[1, 2, 100]\<close>.
\<close>

theorem same_padding_reads_channels:
  "map_sum id sizes
     (and_then (fst (Conv1dSamePadding_init 2 8 41 1 False []))
        (\<lambda>c. Conv1dSamePadding_forward c (Tensor [1, 2, 100] Input)))
   = Inr [1, 8, 61]"
  by (simp add: Conv1dSamePadding_init_def forward_defs)

text \<open>
  Claim C5. The claim is that with \<open>use_residual\<close> true \<open>forward\<close> returns the elementwise
  sum of the output of the main path and of the residual branch applied to the input of the
  block. \<open>forward\<close> does add the two, but the same-padding convolutions compute their
  padding from the channels, so the two branches come out with different lengths and the
  addition raises: for the block of 2 input channels, 8 output channels, bottleneck 4 and
  kernel 9 on an input \<open>[5, 2, 50]\<close> the main path has shape \<open>[5, 8, 56]\<close> and the
  residual branch \<open>[5, 8, 51]\<close>; the block with the default bottleneck 32 and kernel 41
  raises on \<open>[5, 2, 100]\<close> too.
\<close>

theorem residual_block_raises:
  "and_then (fst (InceptionBlock_init 2 8 True 1 4 9 []))
     (\<lambda>b. InceptionBlock_forward b (Tensor [5, 2, 50] Input))
   = Inl (RuntimeError ShapeMismatch)
   \<and> map_sum id sizes
       (and_then (fst (InceptionBlock_init 2 8 True 1 4 9 []))
          (\<lambda>b. InceptionBlock_forward (b\<lparr>use_residual := False\<rparr>) (Tensor [5, 2, 50] Input)))
     = Inr [5, 8, 56]
   \<and> map_sum id sizes
       (and_then (fst (InceptionBlock_init 2 8 True 1 4 9 []))
          (\<lambda>b. case residual b of
                 None \<Rightarrow> Inl AttributeError
               | Some r \<Rightarrow> Sequential_forward layer_forward r (Tensor [5, 2, 50] Input)))
     = Inr [5, 8, 51]
   \<and> and_then (fst (InceptionBlock_init 2 8 True 1 32 41 []))
       (\<lambda>b. InceptionBlock_forward b (Tensor [5, 2, 100] Input))
     = Inl (RuntimeError ShapeMismatch)"
  by (simp add: model_defs forward_defs)

lemma forward_ignores_batchnorm_and_relu:
  "InceptionBlock_forward (self\<lparr>batchnorm := bn, relu := act\<rparr>) x = InceptionBlock_forward self x"
  by (simp add: InceptionBlock_forward_def cong: if_cong)

text \<open>
  Claim C2. The claim is that the main path ends with the batch normalization and the
  rectified-linear activation built by the constructor. \<open>forward\<close> never applies
  \<open>self.batchnorm\<close> and \<open>self.relu\<close>: for a block without residual the value returned is
  the output of the third convolution.
\<close>

theorem forward_leaves_out_batchnorm_relu:
  "and_then (fst (InceptionBlock_init 2 8 False 1 4 9 []))
     (\<lambda>b. InceptionBlock_forward b (Tensor [5, 2, 50] Input))
   = Inr (Tensor [5, 8, 56]
       (Convolution
         (Tensor [5, 8, 51]
           (ConstantPadNd
             (Tensor [5, 8, 50]
               (Convolution
                 (Tensor [5, 8, 47]
                   (ConstantPadNd
                     (Tensor [5, 8, 46]
                       (Convolution
                         (Tensor [5, 4, 52]
                           (ConstantPadNd
                             (Tensor [5, 4, 51]
                               (Convolution
                                 (Tensor [5, 2, 51]
                                   (ConstantPadNd (Tensor [5, 2, 50] Input) 0 1))
                                 (Tensor [4, 2, 1] (Parameter 0 ''weight''))
                                 None 1 0 1 1))
                             0 1))
                         (Tensor [8, 4, 9] (Parameter 1 ''weight'')) None 1 1 1 1))
                     0 1))
                 (Tensor [8, 8, 4] (Parameter 2 ''weight'')) None 1 3 1 1))
             0 1))
         (Tensor [8, 8, 2] (Parameter 3 ''weight'')) None 1 3 1 1))"
  by (simp add: model_defs forward_defs)

text \<open>
  Claim C3. The claim is that with \<open>bottleneck_channels = 0\<close> no bottleneck is built and
  the first convolution consumes \<open>in_channels\<close>. No bottleneck is built, but the first
  convolution is sized by \<open>bottleneck_channels\<close> itself: its weight has no input channel,
  and \<open>forward\<close> raises on an input of \<open>in_channels = 2\<close> channels.
\<close>

theorem no_bottleneck_first_conv_has_no_input_channels:
  "fst (InceptionBlock_init 2 8 False 1 0 9 []) =
     Inr \<lparr>use_bottleneck = False, bottleneck = None,
         conv_layers =
           [ConvLayer
             \<lparr>conv_weight = Tensor [8, 0, 9] (Parameter 0 ''weight''),
                conv_bias = None, conv_stride = [1], conv_dilation = [1],
                conv_groups = 1\<rparr>,
            ConvLayer
             \<lparr>conv_weight = Tensor [8, 8, 4] (Parameter 1 ''weight''),
                conv_bias = None, conv_stride = [1], conv_dilation = [1],
                conv_groups = 1\<rparr>,
            ConvLayer
             \<lparr>conv_weight = Tensor [8, 8, 2] (Parameter 2 ''weight''),
                conv_bias = None, conv_stride = [1], conv_dilation = [1],
                conv_groups = 1\<rparr>],
         batchnorm =
           \<lparr>num_features = 8,
              bn_weight = Tensor [8] (Parameter 3 ''weight''),
              bn_bias = Tensor [8] (Parameter 3 ''bias''), training = True\<rparr>,
         relu = ActLayer,
         use_residual = False, residual = None\<rparr>
   \<and> and_then (fst (InceptionBlock_init 2 8 False 1 0 9 []))
         (\<lambda>b. InceptionBlock_forward b (Tensor [5, 2, 50] Input))
       = Inl (RuntimeError ChannelMismatch)"
  by (simp add: model_defs forward_defs)

text \<open>
  Claim C6. The claim is that the model maps an input of shape \<open>[batch, in_channels, length]\<close>
  to \<open>[batch, num_pred_classes]\<close> for any length. For the stack of three blocks with
  \<open>in_channels = 2\<close>, \<open>out_channels = 8\<close>, \<open>bottleneck_channels = 4\<close>, \<open>kernel_sizes = 9\<close>,
  no residual and three classes, the input \<open>[5, 2, 50]\<close> gives \<open>[5, 3]\<close>, but the input
  \<open>[5, 2, 4]\<close> raises: the padding is computed from the channels, so the padded sequence
  is shorter than the kernel.
\<close>

theorem short_input_raises:
  "and_then (fst (InceptionModel_init 3 2 (Scalar 8) (Scalar 4) (Scalar 9)
                    (Given (Scalar False)) 3 []))
     (\<lambda>m. InceptionModel_forward m (Tensor [5, 2, 4] Input))
   = Inl (RuntimeError KernelTooLarge)
   \<and> map_sum id sizes
       (and_then (fst (InceptionModel_init 3 2 (Scalar 8) (Scalar 4) (Scalar 9)
                         (Given (Scalar False)) 3 []))
          (\<lambda>m. InceptionModel_forward m (Tensor [5, 2, 50] Input)))
     = Inr [5, 3]"
  by (simp add: model_defs forward_defs)

end
